theory Spec2Isabelle
  imports Complex_Main
begin

section \<open>Python values\<close>

text \<open>
  The two programs (\<^verbatim>\<open>ppm_quick_app.py\<close> and
  \<^verbatim>\<open>ppm_quick_app_no_verification.py\<close>) keep all their data in pandas tables.
  A table cell is read back by the programs as one of four kinds of Python value:
  the float \<open>nan\<close> that pandas puts where a spreadsheet or CSV cell is empty, \<open>None\<close>,
  a number, or a string. Numbers are integers here: quotas and completed counts are
  whole units. Every exception the programs can raise on a cell is a value of
  \<open>py_error\<close>.
\<close>

datatype py_error = KeyError | IndexError | ValueError | TypeError | AttributeError

datatype cell = NaN | PyNone | Num int | Str string

definition bind_err :: "py_error + 'a \<Rightarrow> ('a \<Rightarrow> py_error + 'b) \<Rightarrow> py_error + 'b" where
  "bind_err m f = (case m of Inl e \<Rightarrow> Inl e | Inr x \<Rightarrow> f x)"

text \<open>Truth value of a Python object: \<open>nan\<close> is a non-zero float, hence true.\<close>

fun truthy :: "cell \<Rightarrow> bool" where
  "truthy NaN = True"
| "truthy PyNone = False"
| "truthy (Num n) = (n \<noteq> 0)"
| "truthy (Str s) = (s \<noteq> [])"

text \<open>\<^verbatim>\<open>x or y\<close>\<close>

definition py_or :: "cell \<Rightarrow> cell \<Rightarrow> cell" where
  "py_or x y = (if truthy x then x else y)"

text \<open>
  A character is a code point below 256. \<^verbatim>\<open>str.strip()\<close> removes leading and
  trailing whitespace; among these code points the whitespace characters are 9 to 13, 28
  to 32, 133 (next line) and 160 (no-break space).
\<close>

definition is_space :: "char \<Rightarrow> bool" where
  "is_space c =
     (let n = (of_char c :: nat)
      in (9 \<le> n \<and> n \<le> 13) \<or> (28 \<le> n \<and> n \<le> 32) \<or> n = 133 \<or> n = 160)"

definition strip :: "string \<Rightarrow> string" where
  "strip s = rev (dropWhile is_space (rev (dropWhile is_space s)))"

text \<open>
  \<^verbatim>\<open>str.lower()\<close>: the capital letters are 65 to 90 and, among the accented
  letters, 192 to 222 without the multiplication sign 215; each has its small letter 32
  places further on.
\<close>

definition lower_char :: "char \<Rightarrow> char" where
  "lower_char c =
     (let n = (of_char c :: nat)
      in if (65 \<le> n \<and> n \<le> 90) \<or> (192 \<le> n \<and> n \<le> 222 \<and> n \<noteq> 215)
         then char_of (n + 32) else c)"

definition lower :: "string \<Rightarrow> string" where
  "lower s = map lower_char s"

text \<open>
  \<^verbatim>\<open>int(x)\<close>: a number converts to itself, \<open>nan\<close> raises ValueError ("cannot convert
  float NaN to integer"), \<open>None\<close> raises TypeError, and a string is parsed as an optionally
  signed decimal literal (digits, with single underscores between digits) after
  stripping.
\<close>

definition is_digit :: "char \<Rightarrow> bool" where
  "is_digit c = (let n = (of_char c :: nat) in 48 \<le> n \<and> n \<le> 57)"

definition digit_val :: "char \<Rightarrow> int" where
  "digit_val c = int (of_char c) - 48"

fun parse_digits :: "bool \<Rightarrow> int \<Rightarrow> string \<Rightarrow> int option" where
  "parse_digits after_digit acc [] = (if after_digit then Some acc else None)"
| "parse_digits after_digit acc (c # cs) =
     (if is_digit c then parse_digits True (10 * acc + digit_val c) cs
      else if c = CHR ''_'' \<and> after_digit then parse_digits False acc cs
      else None)"

definition int_of_str :: "string \<Rightarrow> py_error + int" where
  "int_of_str s =
     (case strip s of
        [] \<Rightarrow> Inl ValueError
      | c # cs \<Rightarrow>
          (if c = CHR ''-'' then
             (case parse_digits False 0 cs of None \<Rightarrow> Inl ValueError | Some n \<Rightarrow> Inr (- n))
           else if c = CHR ''+'' then
             (case parse_digits False 0 cs of None \<Rightarrow> Inl ValueError | Some n \<Rightarrow> Inr n)
           else
             (case parse_digits False 0 (c # cs) of None \<Rightarrow> Inl ValueError | Some n \<Rightarrow> Inr n)))"

fun py_int :: "cell \<Rightarrow> py_error + int" where
  "py_int NaN = Inl ValueError"
| "py_int PyNone = Inl TypeError"
| "py_int (Num n) = Inr n"
| "py_int (Str s) = int_of_str s"

text \<open>
  Element-wise \<^verbatim>\<open>series == value\<close>: a missing value (\<open>nan\<close>, \<open>None\<close>) equals
  nothing, not even itself; a number never equals a string.
\<close>

fun py_eq :: "cell \<Rightarrow> cell \<Rightarrow> bool" where
  "py_eq (Num a) (Num b) = (a = b)"
| "py_eq (Str a) (Str b) = (a = b)"
| "py_eq _ _ = False"

text \<open>\<^verbatim>\<open>pandas.isna\<close>\<close>

fun isna :: "cell \<Rightarrow> bool" where
  "isna NaN = True"
| "isna PyNone = True"
| "isna _ = False"

text \<open>
  \<^verbatim>\<open>Series.sum()\<close> skips missing values (they count as 0) and adds the rest from
  left to right with Python's \<open>+\<close>; the empty sum is 0.
\<close>

fun py_add :: "cell \<Rightarrow> cell \<Rightarrow> py_error + cell" where
  "py_add (Num a) (Num b) = Inr (Num (a + b))"
| "py_add (Str a) (Str b) = Inr (Str (a @ b))"
| "py_add _ _ = Inl TypeError"

definition fill_zero :: "cell \<Rightarrow> cell" where
  "fill_zero c = (if isna c then Num 0 else c)"

fun reduce_add :: "cell \<Rightarrow> cell list \<Rightarrow> py_error + cell" where
  "reduce_add acc [] = Inr acc"
| "reduce_add acc (c # cs) = bind_err (py_add acc c) (\<lambda>a. reduce_add a cs)"

definition series_sum :: "cell list \<Rightarrow> py_error + cell" where
  "series_sum xs =
     (case map fill_zero xs of [] \<Rightarrow> Inr (Num 0) | c # cs \<Rightarrow> reduce_add c cs)"

section \<open>Tables\<close>

text \<open>
  A \<^verbatim>\<open>DataFrame\<close> is its list of column names and its rows in order. A row is a
  Python dict from column name to value, kept as an association list; a column the row
  has no entry for reads as \<open>nan\<close>, which is what pandas fills in.
\<close>

type_synonym row = "(string \<times> cell) list"

record dataframe =
  columns :: "string list"
  rows :: "row list"

definition cell_at :: "row \<Rightarrow> string \<Rightarrow> cell" where
  "cell_at r c = (case map_of r c of None \<Rightarrow> NaN | Some v \<Rightarrow> v)"

text \<open>\<^verbatim>\<open>pd.DataFrame(columns=cs)\<close> and \<^verbatim>\<open>pd.DataFrame([row])\<close>\<close>

definition empty_frame :: "string list \<Rightarrow> dataframe" where
  "empty_frame cs = \<lparr>columns = cs, rows = []\<rparr>"

definition frame_of_row :: "row \<Rightarrow> dataframe" where
  "frame_of_row r = \<lparr>columns = map fst r, rows = [r]\<rparr>"

text \<open>
  \<^verbatim>\<open>pd.concat([a, b], ignore_index=True)\<close>: the rows of \<open>a\<close> followed by the rows
  of \<open>b\<close>, over the columns of \<open>a\<close> followed by the columns only \<open>b\<close> has.
\<close>

definition pd_concat :: "dataframe \<Rightarrow> dataframe \<Rightarrow> dataframe" where
  "pd_concat a b =
     \<lparr>columns = columns a @ filter (\<lambda>c. c \<notin> set (columns a)) (columns b),
      rows = rows a @ rows b\<rparr>"

text \<open>\<^verbatim>\<open>df[c]\<close>: the column as a series, KeyError when the table has no such column.\<close>

definition get_column :: "dataframe \<Rightarrow> string \<Rightarrow> py_error + cell list" where
  "get_column df c =
     (if c \<in> set (columns df) then Inr (map (\<lambda>r. cell_at r c) (rows df)) else Inl KeyError)"

text \<open>\<^verbatim>\<open>df.iloc[i][c]\<close> on a row \<open>r\<close> of \<open>df\<close>, and \<^verbatim>\<open>row.get(c, d)\<close>.\<close>

definition row_item :: "dataframe \<Rightarrow> row \<Rightarrow> string \<Rightarrow> py_error + cell" where
  "row_item df r c = (if c \<in> set (columns df) then Inr (cell_at r c) else Inl KeyError)"

definition row_get :: "dataframe \<Rightarrow> row \<Rightarrow> string \<Rightarrow> cell \<Rightarrow> cell" where
  "row_get df r c d = (if c \<in> set (columns df) then cell_at r c else d)"

text \<open>
  \<^verbatim>\<open>df.loc[(df["Project Owner"] == owner) & (df["Project Name"] == name)]\<close>, the
  selection both programs apply to the project list and to the submissions log.
\<close>

definition matching_rows :: "dataframe \<Rightarrow> cell \<Rightarrow> cell \<Rightarrow> row list" where
  "matching_rows df owner name =
     filter (\<lambda>r. py_eq (cell_at r ''Project Owner'') owner
                \<and> py_eq (cell_at r ''Project Name'') name) (rows df)"

definition select_project :: "dataframe \<Rightarrow> cell \<Rightarrow> cell \<Rightarrow> py_error + dataframe" where
  "select_project df owner name =
     (if ''Project Owner'' \<in> set (columns df) then
        if ''Project Name'' \<in> set (columns df) then
          Inr (df\<lparr>rows := matching_rows df owner name\<rparr>)
        else Inl KeyError
      else Inl KeyError)"

text \<open>
  \<^verbatim>\<open>df.dropna(subset=cs)\<close>: the rows with a value in every column of \<open>cs\<close>;
  KeyError when a column of \<open>cs\<close> is not in the table.
\<close>

definition has_columns :: "dataframe \<Rightarrow> string list \<Rightarrow> bool" where
  "has_columns df cs = list_all (\<lambda>c. c \<in> set (columns df)) cs"

definition dropna :: "dataframe \<Rightarrow> string list \<Rightarrow> py_error + dataframe" where
  "dropna df cs =
     (if has_columns df cs then
        Inr (df\<lparr>rows := filter (\<lambda>r. list_all (\<lambda>c. \<not> isna (cell_at r c)) cs) (rows df)\<rparr>)
      else Inl KeyError)"

section \<open>Remaining quota\<close>

text \<open>
  \<^verbatim>\<open>int(project_row.iloc[0][q] or 0)\<close> for a quota column \<open>q\<close>, and
  \<^verbatim>\<open>int(prev[c].sum())\<close> for a completed column \<open>c\<close>.
\<close>

definition total_quota :: "dataframe \<Rightarrow> row \<Rightarrow> string \<Rightarrow> py_error + int" where
  "total_quota df r q = bind_err (row_item df r q) (\<lambda>v. py_int (py_or v (Num 0)))"

definition completed :: "dataframe \<Rightarrow> string \<Rightarrow> py_error + int" where
  "completed prev c = bind_err (get_column prev c) (\<lambda>xs. bind_err (series_sum xs) py_int)"

text \<open>
  The block "Determine how many units remain for the selected project" of \<open>main\<close>
  (lines 175 to 200 of \<^verbatim>\<open>ppm_quick_app.py\<close>, and the same statements at lines 280 to
  303 of \<^verbatim>\<open>ppm_quick_app_no_verification.py\<close>). The result is
  \<open>(remaining_indoor, remaining_vrf, remaining_dx, remaining_ahu)\<close>.
\<close>

definition remaining ::
  "dataframe \<Rightarrow> dataframe \<Rightarrow> cell \<Rightarrow> cell \<Rightarrow> py_error + (int \<times> int \<times> int \<times> int)" where
  "remaining project_df inputs_df project_owner project_name =
     (if truthy project_name then
        bind_err (select_project project_df project_owner project_name) (\<lambda>project_row.
          case rows project_row of
            [] \<Rightarrow> Inr (0, 0, 0, 0)
          | r0 # _ \<Rightarrow>
              bind_err (total_quota project_row r0 ''Indoors Qty'') (\<lambda>total_indoor.
              bind_err (total_quota project_row r0 ''VRF OD Qty'') (\<lambda>total_vrf.
              bind_err (total_quota project_row r0 ''DX Outdoor Qty'') (\<lambda>total_dx.
              bind_err (total_quota project_row r0 ''AHU Qty'') (\<lambda>total_ahu.
              bind_err (select_project inputs_df project_owner project_name) (\<lambda>prev.
              bind_err (completed prev ''Indoors Completed'') (\<lambda>completed_indoor.
              bind_err (completed prev ''VRF OD Completed'') (\<lambda>completed_vrf.
              bind_err (completed prev ''DX Outdoor Completed'') (\<lambda>completed_dx.
              bind_err (completed prev ''AHU Completed'') (\<lambda>completed_ahu.
                Inr (max (total_indoor - completed_indoor) 0,
                     max (total_vrf - completed_vrf) 0,
                     max (total_dx - completed_dx) 0,
                     max (total_ahu - completed_ahu) 0)))))))))))
      else Inr (0, 0, 0, 0))"

section \<open>Submitting an entry\<close>

text \<open>
  The workbook \<^verbatim>\<open>PPM App Data.xlsx\<close> is the store: a sheet name gives the table kept
  under it. The store holds the tables themselves; the bytes of the Excel and CSV files
  are not modelled, and a write the operating system refuses is outside the model.
\<close>

type_synonym workbook = "string \<Rightarrow> dataframe option"

text \<open>
  \<^verbatim>\<open>save_submission\<close> (\<^verbatim>\<open>ppm_quick_app.py\<close>) and \<^verbatim>\<open>save_inputs\<close>
  (\<^verbatim>\<open>ppm_quick_app_no_verification.py\<close>): the sheet "Inputs" is replaced, the other
  sheets stay.
\<close>

definition save_submission :: "workbook \<Rightarrow> dataframe \<Rightarrow> workbook" where
  "save_submission file inputs_df = file(''Inputs'' \<mapsto> inputs_df)"

definition save_inputs :: "workbook \<Rightarrow> dataframe \<Rightarrow> workbook" where
  "save_inputs file inputs_df = file(''Inputs'' \<mapsto> inputs_df)"

text \<open>\<^verbatim>\<open>xs[i] if len(xs) > i else ""\<close>\<close>

definition selected :: "cell list \<Rightarrow> nat \<Rightarrow> cell" where
  "selected xs i = (if length xs > i then xs ! i else Str [])"

text \<open>
  The dict \<open>row\<close> built when "Submit" is pressed. \<open>today\<close> stands for
  \<^verbatim>\<open>datetime.date.today()\<close>; the four counts are the values of the number inputs.
\<close>

definition new_row ::
  "cell \<Rightarrow> cell \<Rightarrow> cell \<Rightarrow> cell \<Rightarrow> int \<Rightarrow> int \<Rightarrow> int \<Rightarrow> int \<Rightarrow> cell list \<Rightarrow> cell list \<Rightarrow> row" where
  "new_row today project_owner project_name emirate
      indoors_completed vrf_completed dx_completed ahu_completed tech_selected helper_selected =
     [(''Date'', today),
      (''Project Owner'', project_owner),
      (''Project Name'', project_name),
      (''Emirate'', emirate),
      (''Indoors Completed'', Num indoors_completed),
      (''VRF OD Completed'', Num vrf_completed),
      (''DX Outdoor Completed'', Num dx_completed),
      (''AHU Completed'', Num ahu_completed),
      (''Technician name 1'', selected tech_selected 0),
      (''Technician name 2'', selected tech_selected 1),
      (''Technician name 3'', selected tech_selected 2),
      (''Helper name 1'', selected helper_selected 0),
      (''Helper name 2'', selected helper_selected 1),
      (''Helper name 3'', selected helper_selected 2)]"

text \<open>\<^verbatim>\<open>pd.concat([inputs_df, pd.DataFrame([row])], ignore_index=True)\<close>\<close>

definition append_row :: "dataframe \<Rightarrow> row \<Rightarrow> dataframe" where
  "append_row inputs_df r = pd_concat inputs_df (frame_of_row r)"

text \<open>
  The body of \<^verbatim>\<open>if st.button("Submit")\<close> (lines 252 to 274 of
  \<^verbatim>\<open>ppm_quick_app.py\<close>, lines 351 to 372 of
  \<^verbatim>\<open>ppm_quick_app_no_verification.py\<close>): from the workbook and the table in memory to
  the new table in memory and the workbook after the save.
\<close>

definition submit ::
  "workbook \<Rightarrow> dataframe \<Rightarrow> cell \<Rightarrow> cell \<Rightarrow> cell \<Rightarrow> cell \<Rightarrow> int \<Rightarrow> int \<Rightarrow> int \<Rightarrow> int
     \<Rightarrow> cell list \<Rightarrow> cell list \<Rightarrow> dataframe \<times> workbook" where
  "submit file inputs_df today project_owner project_name emirate
      indoors_completed vrf_completed dx_completed ahu_completed tech_selected helper_selected =
     (let r = new_row today project_owner project_name emirate
                indoors_completed vrf_completed dx_completed ahu_completed
                tech_selected helper_selected;
          inputs_df' = append_row inputs_df r
      in (inputs_df', save_submission file inputs_df'))"

definition submit_nv ::
  "workbook \<Rightarrow> dataframe \<Rightarrow> cell \<Rightarrow> cell \<Rightarrow> cell \<Rightarrow> cell \<Rightarrow> int \<Rightarrow> int \<Rightarrow> int \<Rightarrow> int
     \<Rightarrow> cell list \<Rightarrow> cell list \<Rightarrow> dataframe \<times> workbook" where
  "submit_nv file inputs_df today project_owner project_name emirate
      indoors_completed vrf_completed dx_completed ahu_completed tech_selected helper_selected =
     (let r = new_row today project_owner project_name emirate
                indoors_completed vrf_completed dx_completed ahu_completed
                tech_selected helper_selected;
          inputs_df' = append_row inputs_df r
      in (inputs_df', save_inputs file inputs_df'))"

section \<open>Loading the workbook\<close>

text \<open>
  \<^verbatim>\<open>pd.read_excel(xls, sheet_name=n)\<close> raises ValueError when the workbook has no
  sheet \<open>n\<close>.
\<close>

definition read_excel :: "workbook \<Rightarrow> string \<Rightarrow> py_error + dataframe" where
  "read_excel xls sheet_name = (case xls sheet_name of None \<Rightarrow> Inl ValueError | Some df \<Rightarrow> Inr df)"

definition endswith :: "string \<Rightarrow> string \<Rightarrow> bool" where
  "endswith s suffix =
     (length suffix \<le> length s \<and> drop (length s - length suffix) s = suffix)"

text \<open>\<^verbatim>\<open>df.drop(columns=cs)\<close>\<close>

definition drop_columns :: "dataframe \<Rightarrow> string list \<Rightarrow> dataframe" where
  "drop_columns df cs =
     \<lparr>columns = filter (\<lambda>c. c \<notin> set cs) (columns df),
      rows = map (filter (\<lambda>kv. fst kv \<notin> set cs)) (rows df)\<rparr>"

definition expected_columns :: "string list" where
  "expected_columns =
     [''Date'', ''Project Owner'', ''Project Name'', ''Emirate'',
      ''Indoors Completed'', ''VRF OD Completed'', ''DX Outdoor Completed'', ''AHU Completed'',
      ''Technician name 1'', ''Technician name 2'', ''Technician name 3'',
      ''Helper name 1'', ''Helper name 2'', ''Helper name 3'']"

text \<open>The statements inside \<^verbatim>\<open>try:\<close> after the sheet has been read.\<close>

definition drop_legacy :: "dataframe \<Rightarrow> dataframe" where
  "drop_legacy inputs_df =
     (let cols_to_drop = filter (\<lambda>c. endswith c ''Compelet'') (columns inputs_df)
      in if cols_to_drop \<noteq> [] then drop_columns inputs_df cols_to_drop else inputs_df)"

text \<open>
  \<^verbatim>\<open>load_data\<close> of \<^verbatim>\<open>ppm_quick_app.py\<close>. Only a ValueError from reading the
  "Inputs" sheet is caught.
\<close>

definition load_data :: "workbook \<Rightarrow> py_error + (dataframe \<times> dataframe \<times> dataframe)" where
  "load_data xls =
     bind_err (read_excel xls ''Project List'') (\<lambda>project_df.
     bind_err (read_excel xls ''Technician List'') (\<lambda>technician_df.
     bind_err (case read_excel xls ''Inputs'' of
                 Inr inputs_df \<Rightarrow> Inr (drop_legacy inputs_df)
               | Inl e \<Rightarrow> if e = ValueError then Inr (empty_frame expected_columns) else Inl e)
       (\<lambda>inputs_df. Inr (project_df, technician_df, inputs_df))))"

text \<open>
  Lines 138 to 141 of \<open>main\<close> in \<^verbatim>\<open>ppm_quick_app.py\<close>: the call of
  \<^verbatim>\<open>load_data\<close> and the two \<^verbatim>\<open>dropna\<close> statements that follow it.
\<close>

definition main_load :: "workbook \<Rightarrow> py_error + (dataframe \<times> dataframe \<times> dataframe)" where
  "main_load xls =
     bind_err (load_data xls) (\<lambda>(project_df, technician_df, inputs_df).
     bind_err (dropna project_df [''Project Owner'', ''Project Name'']) (\<lambda>project_df'.
     bind_err (dropna technician_df [''Technician Name'']) (\<lambda>technician_df'.
       Inr (project_df', technician_df', inputs_df))))"

text \<open>
  \<^verbatim>\<open>load_data\<close> of \<^verbatim>\<open>ppm_quick_app_no_verification.py\<close>: every exception from
  the "Inputs" sheet is caught, and the two \<^verbatim>\<open>dropna\<close> statements are part of the
  function.
\<close>

definition load_data_nv :: "workbook \<Rightarrow> py_error + (dataframe \<times> dataframe \<times> dataframe)" where
  "load_data_nv xls =
     bind_err (read_excel xls ''Project List'') (\<lambda>project_df.
     bind_err (read_excel xls ''Technician List'') (\<lambda>technician_df.
     bind_err (case read_excel xls ''Inputs'' of
                 Inr inputs_df \<Rightarrow> Inr (drop_legacy inputs_df)
               | Inl e \<Rightarrow> Inr (empty_frame expected_columns))
       (\<lambda>inputs_df.
     bind_err (dropna project_df [''Project Owner'', ''Project Name'']) (\<lambda>project_df'.
     bind_err (dropna technician_df [''Technician Name'']) (\<lambda>technician_df'.
       Inr (project_df', technician_df', inputs_df))))))"

section \<open>The users registry and the login page\<close>

text \<open>
  \<^verbatim>\<open>users.csv\<close>: not there, there but rejected by \<^verbatim>\<open>pd.read_csv\<close>, or holding
  a header line and records of text fields. The fields are kept as the strings they
  stand for; quoting and line ends are not modelled.
\<close>

datatype users_file = Absent | Unparseable | Csv "string list" "string list list"

text \<open>
  The strings \<^verbatim>\<open>pd.read_csv\<close> reads as a missing value, also under
  \<^verbatim>\<open>dtype=str\<close> (the default list of the pandas documentation).
\<close>

definition default_na_values :: "string list" where
  "default_na_values =
     [[], ''#N/A'', ''#N/A N/A'', ''#NA'', ''-1.#IND'', ''-1.#QNAN'', ''-NaN'', ''-nan'',
      ''1.#IND'', ''1.#QNAN'', ''<NA>'', ''N/A'', ''NA'', ''NULL'', ''NaN'', ''None'',
      ''n/a'', ''nan'', ''null'']"

text \<open>A field as \<^verbatim>\<open>pd.read_csv(USERS_FILE, dtype=str)\<close> returns it.\<close>

definition of_field :: "string \<Rightarrow> cell" where
  "of_field s = (if s \<in> set default_na_values then NaN else Str s)"

text \<open>
  A cell as \<^verbatim>\<open>to_csv\<close> writes it: a missing value as the empty field, a string as
  itself, a number in decimal.
\<close>

fun str_of_nat :: "nat \<Rightarrow> string" where
  "str_of_nat n =
     (if n < 10 then [char_of (48 + n)]
      else str_of_nat (n div 10) @ [char_of (48 + n mod 10)])"

definition str_of_int :: "int \<Rightarrow> string" where
  "str_of_int i = (if i < 0 then CHR ''-'' # str_of_nat (nat (- i)) else str_of_nat (nat i))"

fun to_field :: "cell \<Rightarrow> string" where
  "to_field NaN = []"
| "to_field PyNone = []"
| "to_field (Num n) = str_of_int n"
| "to_field (Str s) = s"

text \<open>
  \<^verbatim>\<open>load_users\<close>. A record gives each column of the header its field, in order, and
  a record of fewer fields leaves the columns after them missing. A file with nothing to
  parse in its header, or with a record of more fields than the header has columns, makes
  \<^verbatim>\<open>pd.read_csv\<close> raise, like any other file it rejects.
\<close>

definition load_users :: "users_file \<Rightarrow> dataframe" where
  "load_users f =
     (case f of
        Csv header records \<Rightarrow>
          if header = [] \<or> list_ex (\<lambda>fields. length header < length fields) records
          then empty_frame [''phone'', ''name'', ''role'']
          else \<lparr>columns = header,
                rows = map (\<lambda>fields. zip header (map of_field fields)) records\<rparr>
      | Unparseable \<Rightarrow> empty_frame [''phone'', ''name'', ''role'']
      | Absent \<Rightarrow> empty_frame [''phone'', ''name'', ''role''])"

text \<open>\<^verbatim>\<open>save_users\<close>: \<^verbatim>\<open>users.to_csv(USERS_FILE, index=False)\<close>.\<close>

definition save_users :: "dataframe \<Rightarrow> users_file" where
  "save_users users =
     Csv (columns users)
       (map (\<lambda>r. map (\<lambda>c. to_field (cell_at r c)) (columns users)) (rows users))"

text \<open>
  \<^verbatim>\<open>st.session_state\<close>: \<open>None\<close> before the three keys are set.
\<close>

record session_state =
  logged_in :: bool
  is_admin :: bool
  phone :: string

definition init_session :: "session_state option \<Rightarrow> session_state" where
  "init_session ss =
     (case ss of
        None \<Rightarrow> \<lparr>logged_in = False, is_admin = False, phone = []\<rparr>
      | Some s \<Rightarrow> s)"

text \<open>\<^verbatim>\<open>v.lower() == 'admin'\<close>: only a string has \<open>lower\<close>.\<close>

fun role_is_admin :: "cell \<Rightarrow> py_error + bool" where
  "role_is_admin (Str s) = Inr (lower s = ''admin'')"
| "role_is_admin _ = Inl AttributeError"

text \<open>
  \<^verbatim>\<open>users[users['phone'] == phone]\<close>, and the table with the new user's record
  appended that the \<^verbatim>\<open>else:\<close> branch of the lookup builds.
\<close>

definition rows_with_phone :: "dataframe \<Rightarrow> string \<Rightarrow> row list" where
  "rows_with_phone users p = filter (\<lambda>r. py_eq (cell_at r ''phone'') (Str p)) (rows users)"

definition register :: "dataframe \<Rightarrow> string \<Rightarrow> dataframe" where
  "register users p =
     pd_concat users
       (frame_of_row [(''phone'', Str p), (''name'', Str []), (''role'', Str ''user'')])"

text \<open>
  \<^verbatim>\<open>show_login\<close>. \<open>phone_input\<close> is the content of the text box and
  \<open>login_clicked\<close> says whether the "Login" button was pressed in this run. The result is
  the returned triple \<open>(authenticated, is_admin, phone)\<close>, the session state and the users
  file after the call.
\<close>

definition show_login ::
  "session_state option \<Rightarrow> users_file \<Rightarrow> dataframe \<Rightarrow> string \<Rightarrow> bool
     \<Rightarrow> py_error + ((bool \<times> bool \<times> string) \<times> session_state \<times> users_file)" where
  "show_login ss file users phone_input login_clicked =
     (let s = init_session ss in
      if \<not> logged_in s then
        if login_clicked then
          let p = strip phone_input in
          if p \<noteq> [] then
            bind_err (get_column users ''phone'') (\<lambda>phones.
              if list_ex (\<lambda>v. py_eq v (Str p)) phones then
                (case rows_with_phone users p of
                   [] \<Rightarrow> Inl IndexError
                 | user_record # _ \<Rightarrow>
                     bind_err (row_item users user_record ''role'') (\<lambda>role.
                     bind_err (role_is_admin role) (\<lambda>adm.
                       Inr ((True, adm, p),
                            \<lparr>logged_in = True, is_admin = adm, phone = p\<rparr>, file))))
              else
                Inr ((True, False, p),
                     \<lparr>logged_in = True, is_admin = False, phone = p\<rparr>,
                     save_users (register users p)))
          else Inr ((False, False, p), s, file)
        else Inr ((False, False, []), s, file)
      else Inr ((True, is_admin s, phone s), s, file))"

section \<open>The administrator's summary\<close>

text \<open>One dict of \<open>summary_rows\<close>.\<close>

record summary_row =
  Project_Owner :: cell
  Project_Name :: cell
  Indoors_Completed :: int
  Indoors_Total :: int
  VRF_OD_Completed :: int
  VRF_OD_Total :: int
  DX_Outdoor_Completed :: int
  DX_Outdoor_Total :: int
  AHU_Completed :: int
  AHU_Total :: int

text \<open>\<^verbatim>\<open>int(p_row.get(q, 0) or 0)\<close>\<close>

definition summary_total :: "dataframe \<Rightarrow> row \<Rightarrow> string \<Rightarrow> py_error + int" where
  "summary_total df r q = py_int (py_or (row_get df r q (Num 0)) (Num 0))"

text \<open>The body of \<^verbatim>\<open>for _, p_row in project_df.iterrows()\<close>.\<close>

definition summary_of :: "dataframe \<Rightarrow> dataframe \<Rightarrow> row \<Rightarrow> py_error + summary_row" where
  "summary_of project_df inputs_df p_row =
     bind_err (row_item project_df p_row ''Project Owner'') (\<lambda>owner.
     bind_err (row_item project_df p_row ''Project Name'') (\<lambda>proj.
     bind_err (summary_total project_df p_row ''Indoors Qty'') (\<lambda>total_indoor.
     bind_err (summary_total project_df p_row ''VRF OD Qty'') (\<lambda>total_vrf.
     bind_err (summary_total project_df p_row ''DX Outdoor Qty'') (\<lambda>total_dx.
     bind_err (summary_total project_df p_row ''AHU Qty'') (\<lambda>total_ahu.
     bind_err (select_project inputs_df owner proj) (\<lambda>prev.
     bind_err (completed prev ''Indoors Completed'') (\<lambda>completed_indoor.
     bind_err (completed prev ''VRF OD Completed'') (\<lambda>completed_vrf.
     bind_err (completed prev ''DX Outdoor Completed'') (\<lambda>completed_dx.
     bind_err (completed prev ''AHU Completed'') (\<lambda>completed_ahu.
       Inr \<lparr>Project_Owner = owner, Project_Name = proj,
            Indoors_Completed = completed_indoor, Indoors_Total = total_indoor,
            VRF_OD_Completed = completed_vrf, VRF_OD_Total = total_vrf,
            DX_Outdoor_Completed = completed_dx, DX_Outdoor_Total = total_dx,
            AHU_Completed = completed_ahu, AHU_Total = total_ahu\<rparr>)))))))))))"

fun summary_loop :: "dataframe \<Rightarrow> dataframe \<Rightarrow> row list \<Rightarrow> py_error + summary_row list" where
  "summary_loop project_df inputs_df [] = Inr []"
| "summary_loop project_df inputs_df (p_row # ps) =
     bind_err (summary_of project_df inputs_df p_row) (\<lambda>x.
     bind_err (summary_loop project_df inputs_df ps) (\<lambda>xs. Inr (x # xs)))"

definition summarize :: "dataframe \<Rightarrow> dataframe \<Rightarrow> py_error + summary_row list" where
  "summarize project_df inputs_df = summary_loop project_df inputs_df (rows project_df)"

text \<open>
  The progress bars. One entry \<open>(label, comp_val, total_val, pct_clamped)\<close> stands for
  the pair \<^verbatim>\<open>st.progress(pct_clamped)\<close>, \<^verbatim>\<open>st.write(...)\<close>. The quotient is
  taken in the rationals; the program takes it in floating point, where the comparisons
  with 0.0 and 1.0 have the same outcome.
\<close>

definition progress_entry :: "string \<Rightarrow> int \<Rightarrow> int \<Rightarrow> (string \<times> int \<times> int \<times> rat) list" where
  "progress_entry label comp_val total_val =
     (if total_val > 0 then
        let pct = (if total_val \<noteq> 0 then of_int comp_val / of_int total_val else 0);
            pct_clamped = max 0 (min 1 pct)
        in [(label, comp_val, total_val, pct_clamped)]
      else [])"

definition progress_bars :: "summary_row \<Rightarrow> (string \<times> int \<times> int \<times> rat) list" where
  "progress_bars r =
     progress_entry ''Indoor Units'' (Indoors_Completed r) (Indoors_Total r)
     @ progress_entry ''VRF Outdoor'' (VRF_OD_Completed r) (VRF_OD_Total r)
     @ progress_entry ''DX Outdoor'' (DX_Outdoor_Completed r) (DX_Outdoor_Total r)
     @ progress_entry ''AHU'' (AHU_Completed r) (AHU_Total r)"

section \<open>Notions used in the statements\<close>

text \<open>
  The value a cell contributes to a column sum, the cells a column sum counts (numbers
  and missing values), and the sum of a completed column over the submissions of one
  project, as the specification words it.
\<close>

fun num_of :: "cell \<Rightarrow> int" where
  "num_of (Num n) = n"
| "num_of _ = 0"

fun countable :: "cell \<Rightarrow> bool" where
  "countable (Str s) = False"
| "countable _ = True"

definition completed_sum :: "dataframe \<Rightarrow> cell \<Rightarrow> cell \<Rightarrow> string \<Rightarrow> int" where
  "completed_sum inputs_df owner name c =
     sum_list (map (\<lambda>r. num_of (cell_at r c)) (matching_rows inputs_df owner name))"

definition counts_countable :: "dataframe \<Rightarrow> cell \<Rightarrow> cell \<Rightarrow> bool" where
  "counts_countable inputs_df owner name =
     list_all (\<lambda>r. countable (cell_at r ''Indoors Completed'')
                  \<and> countable (cell_at r ''VRF OD Completed'')
                  \<and> countable (cell_at r ''DX Outdoor Completed'')
                  \<and> countable (cell_at r ''AHU Completed''))
       (matching_rows inputs_df owner name)"

text \<open>
  The rows of a table that the specification selects for a project: those whose
  Project Owner is the owner and whose Project Name is the name; and the sum of a
  completed column over the submissions so selected. An owner or a name is a proper
  value, a string or a number.
\<close>

fun is_value :: "cell \<Rightarrow> bool" where
  "is_value (Num n) = True"
| "is_value (Str s) = True"
| "is_value _ = False"

definition rows_of_project :: "dataframe \<Rightarrow> cell \<Rightarrow> cell \<Rightarrow> row list" where
  "rows_of_project df owner name =
     filter (\<lambda>r. cell_at r ''Project Owner'' = owner \<and> cell_at r ''Project Name'' = name)
       (rows df)"

definition spec_completed_sum :: "dataframe \<Rightarrow> cell \<Rightarrow> cell \<Rightarrow> string \<Rightarrow> int" where
  "spec_completed_sum inputs_df owner name c =
     sum_list (map (\<lambda>r. num_of (cell_at r c)) (rows_of_project inputs_df owner name))"

text \<open>
  The scenario of the specification: project ("Acme", "Tower A") in Dubai with quotas
  10, 5, 0 and 2, and a log holding one entry of 4 indoor units and 1 VRF unit.
\<close>

definition acme_projects :: dataframe where
  "acme_projects =
     \<lparr>columns = [''Project Owner'', ''Project Name'', ''Emirate'',
                 ''Indoors Qty'', ''VRF OD Qty'', ''DX Outdoor Qty'', ''AHU Qty''],
      rows = [[(''Project Owner'', Str ''Acme''), (''Project Name'', Str ''Tower A''),
               (''Emirate'', Str ''Dubai''), (''Indoors Qty'', Num 10), (''VRF OD Qty'', Num 5),
               (''DX Outdoor Qty'', Num 0), (''AHU Qty'', Num 2)]]\<rparr>"

definition acme_entry :: row where
  "acme_entry =
     new_row (Str ''2025-01-31'') (Str ''Acme'') (Str ''Tower A'') (Str ''Dubai'') 4 1 0 0
       [Str ''Ali'', Str ''Omar''] []"

definition acme_log :: dataframe where
  "acme_log = append_row (empty_frame expected_columns) acme_entry"

text \<open>A workbook holding the scenario's project list and no "Inputs" sheet.\<close>

definition acme_book :: workbook where
  "acme_book = [''Project List'' \<mapsto> acme_projects]"

text \<open>The scenario's project list with the "Indoors Qty" cell left empty.\<close>

definition blank_quota_projects :: dataframe where
  "blank_quota_projects =
     \<lparr>columns = [''Project Owner'', ''Project Name'', ''Emirate'',
                 ''Indoors Qty'', ''VRF OD Qty'', ''DX Outdoor Qty'', ''AHU Qty''],
      rows = [[(''Project Owner'', Str ''Acme''), (''Project Name'', Str ''Tower A''),
               (''Emirate'', Str ''Dubai''), (''Indoors Qty'', NaN), (''VRF OD Qty'', Num 5),
               (''DX Outdoor Qty'', Num 0), (''AHU Qty'', Num 2)]]\<rparr>"

text \<open>
  A workbook whose "Inputs" sheet still has a misspelt legacy column, and whose project
  and technician lists have rows without identity.
\<close>

definition legacy_projects :: dataframe where
  "legacy_projects =
     \<lparr>columns = [''Project Owner'', ''Project Name'', ''Indoors Qty''],
      rows = [[(''Project Owner'', Str ''Acme''), (''Project Name'', Str ''Tower A''),
               (''Indoors Qty'', Num 10)],
              [(''Project Owner'', NaN), (''Project Name'', Str ''Tower B''),
               (''Indoors Qty'', Num 3)],
              [(''Project Owner'', Str ''Acme''), (''Project Name'', NaN),
               (''Indoors Qty'', Num 7)]]\<rparr>"

definition legacy_technicians :: dataframe where
  "legacy_technicians =
     \<lparr>columns = [''Technician Name''],
      rows = [[(''Technician Name'', Str ''Ali'')], [(''Technician Name'', NaN)]]\<rparr>"

definition legacy_inputs :: dataframe where
  "legacy_inputs =
     \<lparr>columns = [''Date'', ''Indoors Completed'', ''Indoors Compelet''],
      rows = [[(''Date'', Str ''2025-01-31''), (''Indoors Completed'', Num 4),
               (''Indoors Compelet'', Num 4)]]\<rparr>"

definition legacy_book :: workbook where
  "legacy_book =
     [''Project List'' \<mapsto> legacy_projects,
      ''Technician List'' \<mapsto> legacy_technicians,
      ''Inputs'' \<mapsto> legacy_inputs]"

text \<open>The same tables as the programs hold them after loading.\<close>

definition legacy_projects_clean :: dataframe where
  "legacy_projects_clean =
     \<lparr>columns = [''Project Owner'', ''Project Name'', ''Indoors Qty''],
      rows = [[(''Project Owner'', Str ''Acme''), (''Project Name'', Str ''Tower A''),
               (''Indoors Qty'', Num 10)]]\<rparr>"

definition legacy_technicians_clean :: dataframe where
  "legacy_technicians_clean =
     \<lparr>columns = [''Technician Name''], rows = [[(''Technician Name'', Str ''Ali'')]]\<rparr>"

definition legacy_inputs_clean :: dataframe where
  "legacy_inputs_clean =
     \<lparr>columns = [''Date'', ''Indoors Completed''],
      rows = [[(''Date'', Str ''2025-01-31''), (''Indoors Completed'', Num 4)]]\<rparr>"

text \<open>The scenario's project list and one technician, with no "Inputs" sheet.\<close>

definition no_inputs_book :: workbook where
  "no_inputs_book =
     [''Project List'' \<mapsto> acme_projects,
      ''Technician List'' \<mapsto>
        \<lparr>columns = [''Technician Name''], rows = [[(''Technician Name'', Str ''Ali'')]]\<rparr>]"


text \<open>A project row whose four quota cells hold numbers.\<close>

fun is_num :: "cell \<Rightarrow> bool" where
  "is_num (Num n) = True"
| "is_num _ = False"

definition quotas_numbers :: "row \<Rightarrow> bool" where
  "quotas_numbers r =
     (is_num (cell_at r ''Indoors Qty'') \<and> is_num (cell_at r ''VRF OD Qty'')
      \<and> is_num (cell_at r ''DX Outdoor Qty'') \<and> is_num (cell_at r ''AHU Qty''))"

text \<open>
  The summary row the specification describes for a project row: the identity and the
  total quotas copied from the project, the completed sums as in the remaining-quota
  computation, with no clamping.
\<close>

definition spec_summary_row :: "dataframe \<Rightarrow> row \<Rightarrow> summary_row" where
  "spec_summary_row inputs_df r =
     (let owner = cell_at r ''Project Owner''; name = cell_at r ''Project Name'' in
      \<lparr>Project_Owner = owner, Project_Name = name,
       Indoors_Completed = completed_sum inputs_df owner name ''Indoors Completed'',
       Indoors_Total = num_of (cell_at r ''Indoors Qty''),
       VRF_OD_Completed = completed_sum inputs_df owner name ''VRF OD Completed'',
       VRF_OD_Total = num_of (cell_at r ''VRF OD Qty''),
       DX_Outdoor_Completed = completed_sum inputs_df owner name ''DX Outdoor Completed'',
       DX_Outdoor_Total = num_of (cell_at r ''DX Outdoor Qty''),
       AHU_Completed = completed_sum inputs_df owner name ''AHU Completed'',
       AHU_Total = num_of (cell_at r ''AHU Qty'')\<rparr>)"

text \<open>The scenario's log after a second entry of 8 indoor units: 12 of 10 completed.\<close>

definition over_log :: dataframe where
  "over_log =
     append_row acme_log
       (new_row (Str ''2025-02-01'') (Str ''Acme'') (Str ''Tower A'') (Str ''Dubai'') 8 0 0 0
          [Str ''Ali''] [])"

definition project_counts_countable :: "dataframe \<Rightarrow> cell \<Rightarrow> cell \<Rightarrow> bool" where
  "project_counts_countable inputs_df owner name =
     list_all (\<lambda>r. countable (cell_at r ''Indoors Completed'')
                  \<and> countable (cell_at r ''VRF OD Completed'')
                  \<and> countable (cell_at r ''DX Outdoor Completed'')
                  \<and> countable (cell_at r ''AHU Completed''))
       (rows_of_project inputs_df owner name)"

text \<open>
  Three projects of two owners, two of them with the same name, and a log with one
  entry for each.
\<close>

definition site_projects :: dataframe where
  "site_projects =
     \<lparr>columns = [''Project Owner'', ''Project Name'', ''Emirate'',
                 ''Indoors Qty'', ''VRF OD Qty'', ''DX Outdoor Qty'', ''AHU Qty''],
      rows = [[(''Project Owner'', Str ''Acme''), (''Project Name'', Str ''Tower A''),
               (''Emirate'', Str ''Dubai''), (''Indoors Qty'', Num 10), (''VRF OD Qty'', Num 5),
               (''DX Outdoor Qty'', Num 0), (''AHU Qty'', Num 2)],
              [(''Project Owner'', Str ''Beta''), (''Project Name'', Str ''Tower A''),
               (''Emirate'', Str ''Sharjah''), (''Indoors Qty'', Num 7), (''VRF OD Qty'', Num 1),
               (''DX Outdoor Qty'', Num 1), (''AHU Qty'', Num 1)],
              [(''Project Owner'', Str ''Acme''), (''Project Name'', Str ''Tower B''),
               (''Emirate'', Str ''Dubai''), (''Indoors Qty'', Num 3), (''VRF OD Qty'', Num 3),
               (''DX Outdoor Qty'', Num 3), (''AHU Qty'', Num 3)]]\<rparr>"

definition site_log :: dataframe where
  "site_log =
     \<lparr>columns = expected_columns,
      rows = [new_row (Str ''2025-01-31'') (Str ''Acme'') (Str ''Tower A'') (Str ''Dubai'') 4 1 0 0
                [Str ''Ali'', Str ''Omar''] [],
              new_row (Str ''2025-01-31'') (Str ''Beta'') (Str ''Tower A'') (Str ''Sharjah'') 2 0 0 0
                [Str ''Ali''] [],
              new_row (Str ''2025-02-01'') (Str ''Acme'') (Str ''Tower B'') (Str ''Dubai'') 1 1 1 1
                [] [Str ''Omar'']]\<rparr>"


text \<open>The users file of a registry with an administrator and a technician.\<close>

definition staff_file :: users_file where
  "staff_file =
     Csv [''phone'', ''name'', ''role'']
       [[''+97150000'', ''Sara'', ''Admin''], [''+97155555'', ''Ali'', ''user'']]"

section \<open>Properties\<close>

subsection \<open>Column sums\<close>

lemma bind_err_simps [simp]: "bind_err (Inr x) f = f x" "bind_err (Inl e) f = Inl e"
  by (simp_all add: bind_err_def)

lemma reduce_add_nums:
  "list_all countable xs \<Longrightarrow>
   reduce_add (Num a) (map fill_zero xs) = Inr (Num (a + sum_list (map num_of xs)))"
proof (induction xs arbitrary: a)
  case Nil
  then show ?case by simp
next
  case (Cons x xs)
  then show ?case by (cases x) (simp_all add: fill_zero_def)
qed

lemma series_sum_countable:
  "list_all countable xs \<Longrightarrow> series_sum xs = Inr (Num (sum_list (map num_of xs)))"
proof (cases xs)
  case Nil
  then show ?thesis by (simp add: series_sum_def)
next
  case (Cons x ys)
  assume "list_all countable xs"
  with Cons have x: "countable x" and ys: "list_all countable ys" by simp_all
  from x obtain a where a: "fill_zero x = Num a" "num_of x = a"
    by (cases x) (simp_all add: fill_zero_def)
  show ?thesis using Cons a reduce_add_nums [OF ys, of a] by (simp add: series_sum_def)
qed

lemma completed_countable:
  "c \<in> set (columns prev) \<Longrightarrow> list_all (\<lambda>r. countable (cell_at r c)) (rows prev) \<Longrightarrow>
   completed prev c = Inr (sum_list (map (\<lambda>r. num_of (cell_at r c)) (rows prev)))"
  using series_sum_countable [of "map (\<lambda>r. cell_at r c) (rows prev)"]
  by (simp add: completed_def get_column_def list_all_iff comp_def)

lemma total_quota_Num:
  "q \<in> set (columns df) \<Longrightarrow> cell_at r q = Num t \<Longrightarrow> total_quota df r q = Inr t"
  by (simp add: total_quota_def row_item_def py_or_def)

lemma remaining_nonneg:
  "remaining P S owner name = Inr (a, b, c, d) \<Longrightarrow> 0 \<le> a \<and> 0 \<le> b \<and> 0 \<le> c \<and> 0 \<le> d"
  unfolding remaining_def bind_err_def
  by (auto split: if_splits list.splits sum.splits)

lemma remaining_no_project:
  "has_columns P [''Project Owner'', ''Project Name''] \<Longrightarrow> matching_rows P owner name = [] \<Longrightarrow>
   remaining P S owner name = Inr (0, 0, 0, 0)"
  by (simp add: remaining_def select_project_def has_columns_def)

lemma remaining_project:
  assumes P: "has_columns P [''Project Owner'', ''Project Name'', ''Indoors Qty'', ''VRF OD Qty'',
                ''DX Outdoor Qty'', ''AHU Qty'']"
    and S: "has_columns S [''Project Owner'', ''Project Name'', ''Indoors Completed'',
                ''VRF OD Completed'', ''DX Outdoor Completed'', ''AHU Completed'']"
    and name: "truthy name"
    and row: "matching_rows P owner name = p # ps"
    and q: "cell_at p ''Indoors Qty'' = Num ti" "cell_at p ''VRF OD Qty'' = Num tv"
           "cell_at p ''DX Outdoor Qty'' = Num td" "cell_at p ''AHU Qty'' = Num ta"
    and cnt: "counts_countable S owner name"
  shows "remaining P S owner name =
           Inr (max (ti - completed_sum S owner name ''Indoors Completed'') 0,
                max (tv - completed_sum S owner name ''VRF OD Completed'') 0,
                max (td - completed_sum S owner name ''DX Outdoor Completed'') 0,
                max (ta - completed_sum S owner name ''AHU Completed'') 0)"
proof -
  let ?pr = "P\<lparr>rows := matching_rows P owner name\<rparr>"
  let ?prev = "S\<lparr>rows := matching_rows S owner name\<rparr>"
  have sel: "select_project P owner name = Inr ?pr"
    using P by (simp add: has_columns_def select_project_def)
  have selS: "select_project S owner name = Inr ?prev"
    using S by (simp add: has_columns_def select_project_def)
  have t: "total_quota ?pr p ''Indoors Qty'' = Inr ti" "total_quota ?pr p ''VRF OD Qty'' = Inr tv"
      "total_quota ?pr p ''DX Outdoor Qty'' = Inr td" "total_quota ?pr p ''AHU Qty'' = Inr ta"
    using P q by (simp_all add: has_columns_def total_quota_Num)
  have c: "completed ?prev ''Indoors Completed'' = Inr (completed_sum S owner name ''Indoors Completed'')"
      "completed ?prev ''VRF OD Completed'' = Inr (completed_sum S owner name ''VRF OD Completed'')"
      "completed ?prev ''DX Outdoor Completed'' = Inr (completed_sum S owner name ''DX Outdoor Completed'')"
      "completed ?prev ''AHU Completed'' = Inr (completed_sum S owner name ''AHU Completed'')"
    using S cnt
    by (simp_all add: has_columns_def counts_countable_def completed_countable completed_sum_def
          list_all_iff)
  show ?thesis
    unfolding remaining_def using name sel selS row t c by simp
qed

subsection \<open>Remaining quota\<close>

lemma py_eq_imp_eq: "py_eq a b \<Longrightarrow> a = b"
  by (cases a; cases b) simp_all

lemma py_eq_value: "is_value b \<Longrightarrow> py_eq a b \<longleftrightarrow> a = b"
  by (cases a; cases b) simp_all

lemma matching_rows_of_project:
  "is_value owner \<Longrightarrow> is_value name \<Longrightarrow>
   matching_rows df owner name = rows_of_project df owner name"
  by (simp add: matching_rows_def rows_of_project_def py_eq_value)

lemma no_rows_of_project:
  "rows_of_project df owner name = [] \<Longrightarrow> matching_rows df owner name = []"
  by (auto simp: matching_rows_def rows_of_project_def filter_empty_conv dest: py_eq_imp_eq)

text \<open>
  Claim C1. Whatever the tables, a result of the remaining-quota computation has no
  negative component. When the project list has the two identity columns and none of
  its rows has the given owner and name, the four remaining values are 0. When the owner
  and the name are proper values, the name not empty, some row of the project list has
  this owner and this name, the quota cells of the first such row are numbers and the
  completed cells of the submissions with this owner and this name are numbers or
  missing, each remaining value is the maximum of 0 and the total quota of that row minus
  the sum of the completed counts over exactly the submissions with this owner and this
  name.
\<close>

theorem remaining_quota:
  "(\<forall>a b c d. remaining P S owner name = Inr (a, b, c, d)
       \<longrightarrow> 0 \<le> a \<and> 0 \<le> b \<and> 0 \<le> c \<and> 0 \<le> d)
   \<and> (has_columns P [''Project Owner'', ''Project Name''] \<and> rows_of_project P owner name = []
       \<longrightarrow> remaining P S owner name = Inr (0, 0, 0, 0))
   \<and> (has_columns P [''Project Owner'', ''Project Name'', ''Indoors Qty'', ''VRF OD Qty'',
                      ''DX Outdoor Qty'', ''AHU Qty'']
       \<and> has_columns S [''Project Owner'', ''Project Name'', ''Indoors Completed'',
                      ''VRF OD Completed'', ''DX Outdoor Completed'', ''AHU Completed'']
       \<and> is_value owner \<and> is_value name \<and> truthy name
       \<and> rows_of_project P owner name = p # ps
       \<and> cell_at p ''Indoors Qty'' = Num ti \<and> cell_at p ''VRF OD Qty'' = Num tv
       \<and> cell_at p ''DX Outdoor Qty'' = Num td \<and> cell_at p ''AHU Qty'' = Num ta
       \<and> project_counts_countable S owner name
       \<longrightarrow> remaining P S owner name =
             Inr (max (ti - spec_completed_sum S owner name ''Indoors Completed'') 0,
                  max (tv - spec_completed_sum S owner name ''VRF OD Completed'') 0,
                  max (td - spec_completed_sum S owner name ''DX Outdoor Completed'') 0,
                  max (ta - spec_completed_sum S owner name ''AHU Completed'') 0))"
proof -
  have 1: "\<forall>a b c d. remaining P S owner name = Inr (a, b, c, d)
       \<longrightarrow> 0 \<le> a \<and> 0 \<le> b \<and> 0 \<le> c \<and> 0 \<le> d"
    using remaining_nonneg [of P S owner name] by blast
  have 2: "has_columns P [''Project Owner'', ''Project Name''] \<and> rows_of_project P owner name = []
       \<longrightarrow> remaining P S owner name = Inr (0, 0, 0, 0)"
    using remaining_no_project [of P owner name S] no_rows_of_project [of P owner name] by blast
  have 3: "remaining P S owner name =
             Inr (max (ti - spec_completed_sum S owner name ''Indoors Completed'') 0,
                  max (tv - spec_completed_sum S owner name ''VRF OD Completed'') 0,
                  max (td - spec_completed_sum S owner name ''DX Outdoor Completed'') 0,
                  max (ta - spec_completed_sum S owner name ''AHU Completed'') 0)"
    if P: "has_columns P [''Project Owner'', ''Project Name'', ''Indoors Qty'', ''VRF OD Qty'',
                      ''DX Outdoor Qty'', ''AHU Qty'']"
      and S: "has_columns S [''Project Owner'', ''Project Name'', ''Indoors Completed'',
                      ''VRF OD Completed'', ''DX Outdoor Completed'', ''AHU Completed'']"
      and v: "is_value owner" "is_value name" and t: "truthy name"
      and row: "rows_of_project P owner name = p # ps"
      and q: "cell_at p ''Indoors Qty'' = Num ti" "cell_at p ''VRF OD Qty'' = Num tv"
             "cell_at p ''DX Outdoor Qty'' = Num td" "cell_at p ''AHU Qty'' = Num ta"
      and cnt: "project_counts_countable S owner name"
  proof -
    have mP: "matching_rows P owner name = p # ps"
      using row v by (simp add: matching_rows_of_project)
    have mS: "matching_rows S owner name = rows_of_project S owner name"
      using v by (simp add: matching_rows_of_project)
    have c: "counts_countable S owner name"
      using cnt by (simp add: counts_countable_def project_counts_countable_def mS)
    have s: "completed_sum S owner name = spec_completed_sum S owner name"
      by (simp add: completed_sum_def spec_completed_sum_def mS fun_eq_iff)
    show ?thesis
      using remaining_project [OF P S t mP q c] by (simp add: s)
  qed
  from 1 2 3 show ?thesis by blast
qed

theorem remaining_quota_witness:
  "remaining site_projects site_log (Str ''Acme'') (Str ''Tower A'') = Inr (6, 4, 0, 2)
   \<and> remaining site_projects site_log (Str ''Beta'') (Str ''Tower A'') = Inr (5, 1, 1, 1)
   \<and> remaining site_projects site_log (Str ''Beta'') (Str ''Tower B'') = Inr (0, 0, 0, 0)"
proof -
  have P: "has_columns site_projects [''Project Owner'', ''Project Name'', ''Indoors Qty'',
      ''VRF OD Qty'', ''DX Outdoor Qty'', ''AHU Qty'']"
    by (simp add: has_columns_def site_projects_def)
  have S: "has_columns site_log [''Project Owner'', ''Project Name'', ''Indoors Completed'',
      ''VRF OD Completed'', ''DX Outdoor Completed'', ''AHU Completed'']"
    by (simp add: has_columns_def site_log_def expected_columns_def)
  have P2: "has_columns site_projects [''Project Owner'', ''Project Name'']"
    by (simp add: has_columns_def site_projects_def)
  have rowA: "rows_of_project site_projects (Str ''Acme'') (Str ''Tower A'')
      = [rows site_projects ! 0]"
    by (simp add: rows_of_project_def site_projects_def cell_at_def)
  have rowB: "rows_of_project site_projects (Str ''Beta'') (Str ''Tower A'')
      = [rows site_projects ! 1]"
    by (simp add: rows_of_project_def site_projects_def cell_at_def)
  have none: "rows_of_project site_projects (Str ''Beta'') (Str ''Tower B'') = []"
    by (simp add: rows_of_project_def site_projects_def cell_at_def)
  have qA: "cell_at (rows site_projects ! 0) ''Indoors Qty'' = Num 10"
    "cell_at (rows site_projects ! 0) ''VRF OD Qty'' = Num 5"
    "cell_at (rows site_projects ! 0) ''DX Outdoor Qty'' = Num 0"
    "cell_at (rows site_projects ! 0) ''AHU Qty'' = Num 2"
    by (simp_all add: site_projects_def cell_at_def)
  have qB: "cell_at (rows site_projects ! 1) ''Indoors Qty'' = Num 7"
    "cell_at (rows site_projects ! 1) ''VRF OD Qty'' = Num 1"
    "cell_at (rows site_projects ! 1) ''DX Outdoor Qty'' = Num 1"
    "cell_at (rows site_projects ! 1) ''AHU Qty'' = Num 1"
    by (simp_all add: site_projects_def cell_at_def)
  have logA: "rows_of_project site_log (Str ''Acme'') (Str ''Tower A'') = [rows site_log ! 0]"
    by (simp add: rows_of_project_def site_log_def new_row_def cell_at_def)
  have logB: "rows_of_project site_log (Str ''Beta'') (Str ''Tower A'') = [rows site_log ! 1]"
    by (simp add: rows_of_project_def site_log_def new_row_def cell_at_def)
  have cntA: "project_counts_countable site_log (Str ''Acme'') (Str ''Tower A'')"
    unfolding project_counts_countable_def logA
    by (simp add: site_log_def new_row_def cell_at_def)
  have cntB: "project_counts_countable site_log (Str ''Beta'') (Str ''Tower A'')"
    unfolding project_counts_countable_def logB
    by (simp add: site_log_def new_row_def cell_at_def)
  have sumsA: "spec_completed_sum site_log (Str ''Acme'') (Str ''Tower A'') ''Indoors Completed'' = 4"
    "spec_completed_sum site_log (Str ''Acme'') (Str ''Tower A'') ''VRF OD Completed'' = 1"
    "spec_completed_sum site_log (Str ''Acme'') (Str ''Tower A'') ''DX Outdoor Completed'' = 0"
    "spec_completed_sum site_log (Str ''Acme'') (Str ''Tower A'') ''AHU Completed'' = 0"
    unfolding spec_completed_sum_def logA
    by (simp_all add: site_log_def new_row_def cell_at_def)
  have sumsB: "spec_completed_sum site_log (Str ''Beta'') (Str ''Tower A'') ''Indoors Completed'' = 2"
    "spec_completed_sum site_log (Str ''Beta'') (Str ''Tower A'') ''VRF OD Completed'' = 0"
    "spec_completed_sum site_log (Str ''Beta'') (Str ''Tower A'') ''DX Outdoor Completed'' = 0"
    "spec_completed_sum site_log (Str ''Beta'') (Str ''Tower A'') ''AHU Completed'' = 0"
    unfolding spec_completed_sum_def logB
    by (simp_all add: site_log_def new_row_def cell_at_def)
  from remaining_quota [of site_projects site_log "Str ''Acme''" "Str ''Tower A''"
      "rows site_projects ! 0" "[]" 10 5 0 2] P S rowA qA cntA sumsA
  have 1: "remaining site_projects site_log (Str ''Acme'') (Str ''Tower A'') = Inr (6, 4, 0, 2)"
    by simp
  from remaining_quota [of site_projects site_log "Str ''Beta''" "Str ''Tower A''"
      "rows site_projects ! 1" "[]" 7 1 1 1] P S rowB qB cntB sumsB
  have 2: "remaining site_projects site_log (Str ''Beta'') (Str ''Tower A'') = Inr (5, 1, 1, 1)"
    by simp
  from remaining_quota [of site_projects site_log "Str ''Beta''" "Str ''Tower B''"] P2 none
  have 3: "remaining site_projects site_log (Str ''Beta'') (Str ''Tower B'') = Inr (0, 0, 0, 0)"
    by blast
  from 1 2 3 show ?thesis by simp
qed

subsection \<open>Appending a submission\<close>

text \<open>
  Claim C5. Appending a record to the submissions log is a concatenation: the rows of the
  result are the rows of the log, unchanged and in their order, followed by the record, so
  the result is one row longer and the record is its last row, at index \<open>len(S)\<close>; the
  columns of the log keep their places. Both programs append in this way when "Submit"
  is pressed.
\<close>

theorem append_row_concatenates:
  "rows (append_row S r) = rows S @ [r]
   \<and> length (rows (append_row S r)) = length (rows S) + 1
   \<and> rows (append_row S r) ! length (rows S) = r
   \<and> last (rows (append_row S r)) = r
   \<and> take (length (rows S)) (rows (append_row S r)) = rows S
   \<and> take (length (columns S)) (columns (append_row S r)) = columns S
   \<and> fst (submit file S today owner name emirate i v d a ts hs)
       = append_row S (new_row today owner name emirate i v d a ts hs)
   \<and> fst (submit_nv file S today owner name emirate i v d a ts hs)
       = append_row S (new_row today owner name emirate i v d a ts hs)"
  by (simp add: append_row_def pd_concat_def frame_of_row_def submit_def submit_nv_def Let_def)

subsection \<open>Submitting more than remains\<close>

text \<open>
  In the scenario with no prior submissions the remaining quota is (10, 5, 0, 2); a
  submission of 11 indoor units is appended and saved all the same.
\<close>

theorem submit_over_quota_counterexample:
  "remaining acme_projects (empty_frame expected_columns) (Str ''Acme'') (Str ''Tower A'')
     = Inr (10, 5, 0, 2)
   \<and> rows (fst (submit acme_book (empty_frame expected_columns) (Str ''2025-01-31'')
        (Str ''Acme'') (Str ''Tower A'') (Str ''Dubai'') 11 0 0 0 [] []))
     = [new_row (Str ''2025-01-31'') (Str ''Acme'') (Str ''Tower A'') (Str ''Dubai'') 11 0 0 0 [] []]
   \<and> rows (fst (submit acme_book (empty_frame expected_columns) (Str ''2025-01-31'')
        (Str ''Acme'') (Str ''Tower A'') (Str ''Dubai'') 11 0 0 0 [] []))
     \<noteq> rows (empty_frame expected_columns)
   \<and> snd (submit acme_book (empty_frame expected_columns) (Str ''2025-01-31'')
        (Str ''Acme'') (Str ''Tower A'') (Str ''Dubai'') 11 0 0 0 [] []) ''Inputs''
     \<noteq> acme_book ''Inputs''
   \<and> cell_at (new_row (Str ''2025-01-31'') (Str ''Acme'') (Str ''Tower A'') (Str ''Dubai'') 11 0 0 0 [] [])
        ''Indoors Completed'' = Num 11
   \<and> snd (submit_nv acme_book (empty_frame expected_columns) (Str ''2025-01-31'')
        (Str ''Acme'') (Str ''Tower A'') (Str ''Dubai'') 11 0 0 0 [] []) ''Inputs''
     \<noteq> acme_book ''Inputs''"
proof -
  have "remaining acme_projects (empty_frame expected_columns) (Str ''Acme'') (Str ''Tower A'')
     = Inr (10, 5, 0, 2)"
    by (simp add: remaining_def select_project_def matching_rows_def acme_projects_def
        empty_frame_def expected_columns_def cell_at_def total_quota_def row_item_def py_or_def
        completed_def get_column_def series_sum_def)
  then show ?thesis
    by (simp add: submit_def submit_nv_def append_row_def pd_concat_def frame_of_row_def Let_def
        empty_frame_def save_submission_def save_inputs_def acme_book_def new_row_def cell_at_def)
qed

text \<open>
  Claim C2, as amended. The submit step compares nothing with the remaining quota: for
  every submission, whatever its counts, it appends one record carrying exactly the given
  counts as the last row of the log and saves the resulting log as the "Inputs" sheet.
\<close>

theorem submit_appends_unchecked:
  "submit file inputs_df today owner name emirate i v d a ts hs
     = (append_row inputs_df (new_row today owner name emirate i v d a ts hs),
        file(''Inputs'' \<mapsto> append_row inputs_df (new_row today owner name emirate i v d a ts hs)))
   \<and> submit_nv file inputs_df today owner name emirate i v d a ts hs
     = (append_row inputs_df (new_row today owner name emirate i v d a ts hs),
        file(''Inputs'' \<mapsto> append_row inputs_df (new_row today owner name emirate i v d a ts hs)))
   \<and> rows (append_row inputs_df (new_row today owner name emirate i v d a ts hs))
     = rows inputs_df @ [new_row today owner name emirate i v d a ts hs]
   \<and> cell_at (new_row today owner name emirate i v d a ts hs) ''Indoors Completed'' = Num i
   \<and> cell_at (new_row today owner name emirate i v d a ts hs) ''VRF OD Completed'' = Num v
   \<and> cell_at (new_row today owner name emirate i v d a ts hs) ''DX Outdoor Completed'' = Num d
   \<and> cell_at (new_row today owner name emirate i v d a ts hs) ''AHU Completed'' = Num a"
  by (simp add: submit_def submit_nv_def save_submission_def save_inputs_def Let_def
      append_row_def pd_concat_def frame_of_row_def new_row_def cell_at_def)

subsection \<open>A project row with an empty quota cell\<close>

text \<open>
  Claim C3. The claim asks that a missing quota counts as 0. An empty cell of the project
  list is read as \<open>nan\<close>, which \<^verbatim>\<open>or 0\<close> lets through (only \<open>None\<close> and 0 are
  replaced), and \<^verbatim>\<open>int\<close> raises ValueError on it: both the remaining-quota
  computation and the summary fail on such a row.
\<close>

theorem blank_quota_raises:
  "remaining blank_quota_projects (empty_frame expected_columns) (Str ''Acme'') (Str ''Tower A'')
     = Inl ValueError
   \<and> summarize blank_quota_projects (empty_frame expected_columns) = Inl ValueError
   \<and> py_int (py_or NaN (Num 0)) = Inl ValueError
   \<and> py_int (py_or PyNone (Num 0)) = Inr 0"
  by (simp add: remaining_def select_project_def matching_rows_def blank_quota_projects_def
        empty_frame_def expected_columns_def cell_at_def total_quota_def row_item_def py_or_def
        summarize_def summary_of_def summary_total_def row_get_def)

subsection \<open>Loading\<close>

lemma drop_legacy_columns:
  "list_all (\<lambda>c. \<not> endswith c ''Compelet'') (columns (drop_legacy df))"
  by (auto simp: drop_legacy_def drop_columns_def Let_def list_all_iff filter_empty_conv)

lemma expected_columns_clean: "list_all (\<lambda>c. \<not> endswith c ''Compelet'') expected_columns"
  by (simp add: expected_columns_def endswith_def)

lemma load_data_inputs:
  "load_data xls = Inr (p, t, i) \<Longrightarrow>
   i = (case xls ''Inputs'' of None \<Rightarrow> empty_frame expected_columns | Some df \<Rightarrow> drop_legacy df)"
  by (auto simp: load_data_def read_excel_def bind_err_def split: option.splits sum.splits)

lemma load_data_nv_inputs:
  "load_data_nv xls = Inr (p, t, i) \<Longrightarrow>
   i = (case xls ''Inputs'' of None \<Rightarrow> empty_frame expected_columns | Some df \<Rightarrow> drop_legacy df)"
  by (auto simp: load_data_nv_def read_excel_def bind_err_def split: option.splits sum.splits)

lemma inputs_clean:
  "list_all (\<lambda>c. \<not> endswith c ''Compelet'')
     (columns (case x of None \<Rightarrow> empty_frame expected_columns | Some df \<Rightarrow> drop_legacy df))"
  using expected_columns_clean by (cases x) (simp_all add: drop_legacy_columns empty_frame_def)

lemma load_data_returns:
  "xls ''Project List'' = Some p \<Longrightarrow> xls ''Technician List'' = Some t \<Longrightarrow>
   \<exists>i. load_data xls = Inr (p, t, i)"
  by (cases "xls ''Inputs''") (simp_all add: load_data_def read_excel_def)

text \<open>
  Claim C6. In both programs, a Submissions table returned by \<^verbatim>\<open>load_data\<close> has no
  column whose name ends with "Compelet"; and when the workbook has no "Inputs" sheet the
  table returned is empty and has exactly the fixed 14 columns (Date, Project Owner,
  Project Name, Emirate, the four Completed columns, Technician name 1 to 3, Helper name
  1 to 3). A table is returned whenever the two reference sheets are there.
\<close>

theorem load_inputs_schema:
  "(load_data xls = Inr (p, t, i) \<longrightarrow>
      list_all (\<lambda>c. \<not> endswith c ''Compelet'') (columns i)
      \<and> (xls ''Inputs'' = None \<longrightarrow> i = \<lparr>columns = expected_columns, rows = []\<rparr>))
   \<and> (load_data_nv xls = Inr (p', t', i') \<longrightarrow>
      list_all (\<lambda>c. \<not> endswith c ''Compelet'') (columns i')
      \<and> (xls ''Inputs'' = None \<longrightarrow> i' = \<lparr>columns = expected_columns, rows = []\<rparr>))
   \<and> (xls ''Project List'' = Some p0 \<and> xls ''Technician List'' = Some t0
      \<longrightarrow> (\<exists>i0. load_data xls = Inr (p0, t0, i0)))
   \<and> expected_columns =
        [''Date'', ''Project Owner'', ''Project Name'', ''Emirate'',
         ''Indoors Completed'', ''VRF OD Completed'', ''DX Outdoor Completed'', ''AHU Completed'',
         ''Technician name 1'', ''Technician name 2'', ''Technician name 3'',
         ''Helper name 1'', ''Helper name 2'', ''Helper name 3'']
   \<and> length expected_columns = 14"
proof -
  have 1: "load_data xls = Inr (p, t, i) \<longrightarrow>
      list_all (\<lambda>c. \<not> endswith c ''Compelet'') (columns i)
      \<and> (xls ''Inputs'' = None \<longrightarrow> i = \<lparr>columns = expected_columns, rows = []\<rparr>)"
    using inputs_clean [of "xls ''Inputs''"] load_data_inputs [of xls p t i]
    by (auto simp: empty_frame_def)
  have 2: "load_data_nv xls = Inr (p', t', i') \<longrightarrow>
      list_all (\<lambda>c. \<not> endswith c ''Compelet'') (columns i')
      \<and> (xls ''Inputs'' = None \<longrightarrow> i' = \<lparr>columns = expected_columns, rows = []\<rparr>)"
    using inputs_clean [of "xls ''Inputs''"] load_data_nv_inputs [of xls p' t' i']
    by (auto simp: empty_frame_def)
  have 3: "xls ''Project List'' = Some p0 \<and> xls ''Technician List'' = Some t0
      \<longrightarrow> (\<exists>i0. load_data xls = Inr (p0, t0, i0))"
    using load_data_returns [of xls p0 t0] by blast
  have 4: "length expected_columns = 14" by (simp add: expected_columns_def)
  from 1 2 3 4 show ?thesis by (simp add: expected_columns_def)
qed

theorem load_inputs_schema_witness:
  "load_data legacy_book = Inr (legacy_projects, legacy_technicians, legacy_inputs_clean)
   \<and> list_all (\<lambda>c. \<not> endswith c ''Compelet'') (columns legacy_inputs_clean)
   \<and> load_data_nv no_inputs_book =
       Inr (acme_projects,
            \<lparr>columns = [''Technician Name''], rows = [[(''Technician Name'', Str ''Ali'')]]\<rparr>,
            \<lparr>columns = expected_columns, rows = []\<rparr>)"
proof -
  let ?t = "\<lparr>columns = [''Technician Name''], rows = [[(''Technician Name'', Str ''Ali'')]]\<rparr>"
  have a: "load_data legacy_book = Inr (legacy_projects, legacy_technicians, legacy_inputs_clean)"
    by (simp add: load_data_def read_excel_def legacy_book_def legacy_inputs_def
        legacy_inputs_clean_def drop_legacy_def drop_columns_def endswith_def Let_def)
  have b: "\<exists>i. load_data_nv no_inputs_book = Inr (acme_projects, ?t, i)"
    by (simp add: load_data_nv_def read_excel_def no_inputs_book_def dropna_def has_columns_def
        acme_projects_def cell_at_def)
  then obtain i where i: "load_data_nv no_inputs_book = Inr (acme_projects, ?t, i)" ..
  have n: "no_inputs_book ''Inputs'' = None"
    by (simp add: no_inputs_book_def)
  from load_inputs_schema [of legacy_book legacy_projects legacy_technicians
      legacy_inputs_clean] a
  have 1: "list_all (\<lambda>c. \<not> endswith c ''Compelet'') (columns legacy_inputs_clean)"
    by simp
  from load_inputs_schema [of no_inputs_book _ _ _ acme_projects ?t i] i n
  have "i = \<lparr>columns = expected_columns, rows = []\<rparr>"
    by blast
  with a 1 i show ?thesis by simp
qed

lemma dropna_rows:
  "dropna df cs = Inr df' \<Longrightarrow>
   rows df' = filter (\<lambda>r. list_all (\<lambda>c. \<not> isna (cell_at r c)) cs) (rows df)"
  by (auto simp: dropna_def split: if_splits)

lemma load_data_nv_tables:
  assumes "load_data_nv xls = Inr (p, t, i)"
  shows "\<exists>p0 t0. xls ''Project List'' = Some p0 \<and> xls ''Technician List'' = Some t0
           \<and> dropna p0 [''Project Owner'', ''Project Name''] = Inr p
           \<and> dropna t0 [''Technician Name''] = Inr t"
  using assms
  by (auto simp: load_data_nv_def read_excel_def bind_err_def split: option.splits sum.splits)

lemma main_load_tables:
  assumes "main_load xls = Inr (p, t, i)"
  shows "\<exists>p0 t0. xls ''Project List'' = Some p0 \<and> xls ''Technician List'' = Some t0
           \<and> dropna p0 [''Project Owner'', ''Project Name''] = Inr p
           \<and> dropna t0 [''Technician Name''] = Inr t"
  using assms
  by (auto simp: main_load_def load_data_def read_excel_def bind_err_def
      split: option.splits sum.splits if_splits)

lemma cleaned_tables:
  assumes "xls ''Project List'' = Some p0" "xls ''Technician List'' = Some t0"
    "dropna p0 [''Project Owner'', ''Project Name''] = Inr p"
    "dropna t0 [''Technician Name''] = Inr t"
  shows "rows p = filter (\<lambda>r. \<not> isna (cell_at r ''Project Owner'')
                             \<and> \<not> isna (cell_at r ''Project Name'')) (rows p0)
         \<and> rows t = filter (\<lambda>r. \<not> isna (cell_at r ''Technician Name'')) (rows t0)
         \<and> list_all (\<lambda>r. \<not> isna (cell_at r ''Project Owner'')
                        \<and> \<not> isna (cell_at r ''Project Name'')) (rows p)
         \<and> list_all (\<lambda>r. \<not> isna (cell_at r ''Technician Name'')) (rows t)"
  using dropna_rows [OF assms(3)] dropna_rows [OF assms(4)]
  by (simp add: list_all_iff)

text \<open>
  Claim C7. The Projects table that loading returns has no row whose Project Owner or
  Project Name is missing, and the Technicians table has no row whose Technician Name is
  missing: the rows returned are exactly the rows of the sheet that have these values, in
  their order. In \<^verbatim>\<open>ppm_quick_app_no_verification.py\<close> loading is
  \<^verbatim>\<open>load_data\<close>; in \<^verbatim>\<open>ppm_quick_app.py\<close> it is the call of
  \<^verbatim>\<open>load_data\<close> with the two \<^verbatim>\<open>dropna\<close> statements that follow it in
  \<open>main\<close>.
\<close>

theorem load_drops_unidentified_rows:
  "(load_data_nv xls = Inr (p, t, i) \<longrightarrow>
      list_all (\<lambda>r. \<not> isna (cell_at r ''Project Owner'')
                   \<and> \<not> isna (cell_at r ''Project Name'')) (rows p)
      \<and> list_all (\<lambda>r. \<not> isna (cell_at r ''Technician Name'')) (rows t)
      \<and> (\<exists>p0 t0. xls ''Project List'' = Some p0 \<and> xls ''Technician List'' = Some t0
            \<and> rows p = filter (\<lambda>r. \<not> isna (cell_at r ''Project Owner'')
                                   \<and> \<not> isna (cell_at r ''Project Name'')) (rows p0)
            \<and> rows t = filter (\<lambda>r. \<not> isna (cell_at r ''Technician Name'')) (rows t0)))
   \<and> (main_load xls = Inr (p', t', i') \<longrightarrow>
      list_all (\<lambda>r. \<not> isna (cell_at r ''Project Owner'')
                   \<and> \<not> isna (cell_at r ''Project Name'')) (rows p')
      \<and> list_all (\<lambda>r. \<not> isna (cell_at r ''Technician Name'')) (rows t')
      \<and> (\<exists>p0 t0. xls ''Project List'' = Some p0 \<and> xls ''Technician List'' = Some t0
            \<and> rows p' = filter (\<lambda>r. \<not> isna (cell_at r ''Project Owner'')
                                   \<and> \<not> isna (cell_at r ''Project Name'')) (rows p0)
            \<and> rows t' = filter (\<lambda>r. \<not> isna (cell_at r ''Technician Name'')) (rows t0)))"
proof -
  have 1: "load_data_nv xls = Inr (p, t, i) \<longrightarrow>
      list_all (\<lambda>r. \<not> isna (cell_at r ''Project Owner'')
                   \<and> \<not> isna (cell_at r ''Project Name'')) (rows p)
      \<and> list_all (\<lambda>r. \<not> isna (cell_at r ''Technician Name'')) (rows t)
      \<and> (\<exists>p0 t0. xls ''Project List'' = Some p0 \<and> xls ''Technician List'' = Some t0
            \<and> rows p = filter (\<lambda>r. \<not> isna (cell_at r ''Project Owner'')
                                   \<and> \<not> isna (cell_at r ''Project Name'')) (rows p0)
            \<and> rows t = filter (\<lambda>r. \<not> isna (cell_at r ''Technician Name'')) (rows t0))"
  proof
    assume "load_data_nv xls = Inr (p, t, i)"
    from load_data_nv_tables [OF this] obtain p0 t0 where
      h: "xls ''Project List'' = Some p0" "xls ''Technician List'' = Some t0"
         "dropna p0 [''Project Owner'', ''Project Name''] = Inr p"
         "dropna t0 [''Technician Name''] = Inr t"
      by blast
    from cleaned_tables [OF h] h(1,2) show
      "list_all (\<lambda>r. \<not> isna (cell_at r ''Project Owner'')
                   \<and> \<not> isna (cell_at r ''Project Name'')) (rows p)
      \<and> list_all (\<lambda>r. \<not> isna (cell_at r ''Technician Name'')) (rows t)
      \<and> (\<exists>p0 t0. xls ''Project List'' = Some p0 \<and> xls ''Technician List'' = Some t0
            \<and> rows p = filter (\<lambda>r. \<not> isna (cell_at r ''Project Owner'')
                                   \<and> \<not> isna (cell_at r ''Project Name'')) (rows p0)
            \<and> rows t = filter (\<lambda>r. \<not> isna (cell_at r ''Technician Name'')) (rows t0))"
      by blast
  qed
  have 2: "main_load xls = Inr (p', t', i') \<longrightarrow>
      list_all (\<lambda>r. \<not> isna (cell_at r ''Project Owner'')
                   \<and> \<not> isna (cell_at r ''Project Name'')) (rows p')
      \<and> list_all (\<lambda>r. \<not> isna (cell_at r ''Technician Name'')) (rows t')
      \<and> (\<exists>p0 t0. xls ''Project List'' = Some p0 \<and> xls ''Technician List'' = Some t0
            \<and> rows p' = filter (\<lambda>r. \<not> isna (cell_at r ''Project Owner'')
                                   \<and> \<not> isna (cell_at r ''Project Name'')) (rows p0)
            \<and> rows t' = filter (\<lambda>r. \<not> isna (cell_at r ''Technician Name'')) (rows t0))"
  proof
    assume "main_load xls = Inr (p', t', i')"
    from main_load_tables [OF this] obtain p0 t0 where
      h: "xls ''Project List'' = Some p0" "xls ''Technician List'' = Some t0"
         "dropna p0 [''Project Owner'', ''Project Name''] = Inr p'"
         "dropna t0 [''Technician Name''] = Inr t'"
      by blast
    from cleaned_tables [OF h] h(1,2) show
      "list_all (\<lambda>r. \<not> isna (cell_at r ''Project Owner'')
                   \<and> \<not> isna (cell_at r ''Project Name'')) (rows p')
      \<and> list_all (\<lambda>r. \<not> isna (cell_at r ''Technician Name'')) (rows t')
      \<and> (\<exists>p0 t0. xls ''Project List'' = Some p0 \<and> xls ''Technician List'' = Some t0
            \<and> rows p' = filter (\<lambda>r. \<not> isna (cell_at r ''Project Owner'')
                                   \<and> \<not> isna (cell_at r ''Project Name'')) (rows p0)
            \<and> rows t' = filter (\<lambda>r. \<not> isna (cell_at r ''Technician Name'')) (rows t0))"
      by blast
  qed
  from 1 2 show ?thesis by blast
qed

theorem load_drops_unidentified_rows_witness:
  "load_data_nv legacy_book
     = Inr (legacy_projects_clean, legacy_technicians_clean, legacy_inputs_clean)
   \<and> main_load legacy_book
     = Inr (legacy_projects_clean, legacy_technicians_clean, legacy_inputs_clean)
   \<and> list_all (\<lambda>r. \<not> isna (cell_at r ''Project Owner'')
                 \<and> \<not> isna (cell_at r ''Project Name'')) (rows legacy_projects_clean)
   \<and> list_all (\<lambda>r. \<not> isna (cell_at r ''Technician Name'')) (rows legacy_technicians_clean)"
proof -
  have a: "load_data_nv legacy_book
     = Inr (legacy_projects_clean, legacy_technicians_clean, legacy_inputs_clean)"
    by (simp add: load_data_nv_def read_excel_def legacy_book_def legacy_projects_def
        legacy_technicians_def legacy_inputs_def drop_legacy_def drop_columns_def
        endswith_def Let_def dropna_def has_columns_def cell_at_def legacy_projects_clean_def
        legacy_technicians_clean_def legacy_inputs_clean_def)
  have b: "main_load legacy_book
     = Inr (legacy_projects_clean, legacy_technicians_clean, legacy_inputs_clean)"
    by (simp add: main_load_def load_data_def read_excel_def legacy_book_def legacy_projects_def
        legacy_technicians_def legacy_inputs_def drop_legacy_def
        drop_columns_def endswith_def Let_def dropna_def has_columns_def cell_at_def
        legacy_projects_clean_def legacy_technicians_clean_def legacy_inputs_clean_def)
  from load_drops_unidentified_rows [of legacy_book legacy_projects_clean
      legacy_technicians_clean legacy_inputs_clean legacy_projects_clean
      legacy_technicians_clean legacy_inputs_clean] a b
  show ?thesis by blast
qed

subsection \<open>Login\<close>

lemma strip_blank:
  assumes "list_all is_space s"
  shows "strip s = []"
proof -
  from assms have d: "dropWhile is_space s = []"
    by (simp add: list_all_iff)
  show ?thesis unfolding strip_def d by simp
qed

lemma phone_listed:
  "list_ex (\<lambda>v. py_eq v (Str p)) (map (\<lambda>r. cell_at r ''phone'') (rows users))
   \<longleftrightarrow> rows_with_phone users p \<noteq> []"
  by (auto simp: rows_with_phone_def list_ex_iff filter_empty_conv)



lemma login_unknown:
  assumes "\<not> logged_in (init_session ss)" "strip phone_input = p" "p \<noteq> []"
    "has_columns users [''phone'']" "rows_with_phone users p = []"
  shows "show_login ss file users phone_input True
         = Inr ((True, False, p),
                \<lparr>logged_in = True, is_admin = False, phone = p\<rparr>, save_users (register users p))"
  using assms
  by (simp add: show_login_def Let_def get_column_def has_columns_def phone_listed)




subsection \<open>Saving and loading the registry\<close>












text \<open>
  Claim C9. In a session that is not logged in, a phone input that is empty or consists
  only of whitespace changes nothing, whether or not "Login" was pressed: the call
  returns "not authenticated", the session state stays logged out and the users file
  stays as it was.
\<close>

theorem blank_phone_rejected:
  "\<not> logged_in (init_session ss) \<and> list_all is_space phone_input
   \<longrightarrow> show_login ss file users phone_input clicked
         = Inr ((False, False, []), init_session ss, file)"
  by (simp add: show_login_def Let_def strip_blank)

theorem blank_phone_rejected_witness:
  "show_login None staff_file (load_users staff_file) ([char_of (160 :: nat)] @ ''   '') True
     = Inr ((False, False, []), \<lparr>logged_in = False, is_admin = False, phone = []\<rparr>, staff_file)
   \<and> show_login None Absent (load_users Absent) [] True
     = Inr ((False, False, []), \<lparr>logged_in = False, is_admin = False, phone = []\<rparr>, Absent)"
proof -
  have fresh: "\<not> logged_in (init_session None)"
      "init_session None = \<lparr>logged_in = False, is_admin = False, phone = []\<rparr>"
    by (simp_all add: init_session_def)
  have b: "list_all is_space ([char_of (160 :: nat)] @ ''   '')" "list_all is_space []"
    by (simp_all add: is_space_def)
  from blank_phone_rejected [of None "[char_of (160 :: nat)] @ ''   ''" staff_file
      "load_users staff_file" True]
    blank_phone_rejected [of None "[]" Absent "load_users Absent" True] fresh b
  show ?thesis by simp
qed

text \<open>
  Claim C10. When the users file is not there or cannot be parsed,
  \<^verbatim>\<open>load_users\<close> returns the empty registry with the columns phone, name and role
  instead of failing; a login against it with any phone that is not blank finds no
  record, returns the role "user" (not administrator) and saves a registry holding that
  phone alone, with role "user".
\<close>

theorem missing_registry_registers_user:
  "(f = Absent \<or> f = Unparseable)
   \<longrightarrow> load_users f = \<lparr>columns = [''phone'', ''name'', ''role''], rows = []\<rparr>
       \<and> (\<not> logged_in (init_session ss) \<and> strip phone_input \<noteq> []
          \<longrightarrow> show_login ss f (load_users f) phone_input True
              = Inr ((True, False, strip phone_input),
                     \<lparr>logged_in = True, is_admin = False, phone = strip phone_input\<rparr>,
                     Csv [''phone'', ''name'', ''role''] [[strip phone_input, [], ''user'']]))"
proof -
  let ?e = "\<lparr>columns = [''phone'', ''name'', ''role''], rows = []\<rparr>"
  have e: "has_columns ?e [''phone'']" "rows_with_phone ?e (strip phone_input) = []"
    by (simp_all add: has_columns_def rows_with_phone_def)
  have r: "save_users (register ?e (strip phone_input))
      = Csv [''phone'', ''name'', ''role''] [[strip phone_input, [], ''user'']]"
    by (simp add: save_users_def register_def pd_concat_def frame_of_row_def cell_at_def)
  have l: "f = Absent \<or> f = Unparseable \<longrightarrow> load_users f = ?e"
    by (auto simp: load_users_def empty_frame_def)
  show ?thesis
    using l login_unknown [of ss phone_input "strip phone_input" ?e f] e r
    by auto
qed

theorem missing_registry_registers_user_witness:
  "load_users Unparseable = \<lparr>columns = [''phone'', ''name'', ''role''], rows = []\<rparr>
   \<and> show_login None Absent (load_users Absent) ''+97150000'' True
       = Inr ((True, False, ''+97150000''),
              \<lparr>logged_in = True, is_admin = False, phone = ''+97150000''\<rparr>,
              Csv [''phone'', ''name'', ''role''] [[''+97150000'', [], ''user'']])"
proof -
  have s: "strip ''+97150000'' = ''+97150000''"
    by (simp add: strip_def is_space_def)
  have fresh: "\<not> logged_in (init_session None)"
    by (simp add: init_session_def)
  have g: "\<not> logged_in (init_session None) \<and> ''+97150000'' \<noteq> []"
    using fresh by simp
  note a = missing_registry_registers_user [of Absent None "''+97150000''", unfolded s]
  note u = missing_registry_registers_user [of Unparseable None "''+97150000''", unfolded s]
  from a g have 1: "show_login None Absent (load_users Absent) ''+97150000'' True
       = Inr ((True, False, ''+97150000''),
              \<lparr>logged_in = True, is_admin = False, phone = ''+97150000''\<rparr>,
              Csv [''phone'', ''name'', ''role''] [[''+97150000'', [], ''user'']])"
    by blast
  from u have 2: "load_users Unparseable = \<lparr>columns = [''phone'', ''name'', ''role''], rows = []\<rparr>"
    by blast
  from 1 2 show ?thesis by blast
qed

subsection \<open>Summary\<close>

lemma summary_loop_length:
  "summary_loop P S ps = Inr out \<Longrightarrow> length out = length ps"
proof (induction ps arbitrary: out)
  case Nil
  then show ?case by simp
next
  case (Cons r ps)
  then show ?case
    by (auto simp: bind_err_def split: sum.splits)
qed

lemma summary_total_Num:
  "is_num (cell_at r q) \<Longrightarrow> q \<in> set (columns df) \<Longrightarrow>
   summary_total df r q = Inr (num_of (cell_at r q))"
  by (cases "cell_at r q") (simp_all add: summary_total_def row_get_def py_or_def)

lemma summary_of_well_formed:
  assumes P: "has_columns P [''Project Owner'', ''Project Name'', ''Indoors Qty'', ''VRF OD Qty'',
                ''DX Outdoor Qty'', ''AHU Qty'']"
    and S: "has_columns S [''Project Owner'', ''Project Name'', ''Indoors Completed'',
                ''VRF OD Completed'', ''DX Outdoor Completed'', ''AHU Completed'']"
    and q: "quotas_numbers r"
    and cnt: "counts_countable S (cell_at r ''Project Owner'') (cell_at r ''Project Name'')"
  shows "summary_of P S r = Inr (spec_summary_row S r)"
proof -
  let ?o = "cell_at r ''Project Owner''" and ?n = "cell_at r ''Project Name''"
  let ?prev = "S\<lparr>rows := matching_rows S ?o ?n\<rparr>"
  have id: "row_item P r ''Project Owner'' = Inr ?o" "row_item P r ''Project Name'' = Inr ?n"
    using P by (simp_all add: has_columns_def row_item_def)
  have t: "summary_total P r ''Indoors Qty'' = Inr (num_of (cell_at r ''Indoors Qty''))"
      "summary_total P r ''VRF OD Qty'' = Inr (num_of (cell_at r ''VRF OD Qty''))"
      "summary_total P r ''DX Outdoor Qty'' = Inr (num_of (cell_at r ''DX Outdoor Qty''))"
      "summary_total P r ''AHU Qty'' = Inr (num_of (cell_at r ''AHU Qty''))"
    using P q by (simp_all add: has_columns_def quotas_numbers_def summary_total_Num)
  have sel: "select_project S ?o ?n = Inr ?prev"
    using S by (simp add: has_columns_def select_project_def)
  have c: "completed ?prev ''Indoors Completed'' = Inr (completed_sum S ?o ?n ''Indoors Completed'')"
      "completed ?prev ''VRF OD Completed'' = Inr (completed_sum S ?o ?n ''VRF OD Completed'')"
      "completed ?prev ''DX Outdoor Completed'' = Inr (completed_sum S ?o ?n ''DX Outdoor Completed'')"
      "completed ?prev ''AHU Completed'' = Inr (completed_sum S ?o ?n ''AHU Completed'')"
    using S cnt
    by (simp_all add: has_columns_def counts_countable_def completed_countable completed_sum_def
          list_all_iff)
  show ?thesis
    unfolding summary_of_def spec_summary_row_def Let_def using id t sel c by simp
qed

lemma summary_loop_well_formed:
  assumes P: "has_columns P [''Project Owner'', ''Project Name'', ''Indoors Qty'', ''VRF OD Qty'',
                ''DX Outdoor Qty'', ''AHU Qty'']"
    and S: "has_columns S [''Project Owner'', ''Project Name'', ''Indoors Completed'',
                ''VRF OD Completed'', ''DX Outdoor Completed'', ''AHU Completed'']"
  shows "list_all (\<lambda>r. quotas_numbers r
             \<and> counts_countable S (cell_at r ''Project Owner'') (cell_at r ''Project Name'')) ps
         \<Longrightarrow> summary_loop P S ps = Inr (map (spec_summary_row S) ps)"
proof (induction ps)
  case Nil
  then show ?case by simp
next
  case (Cons r ps)
  then show ?case using summary_of_well_formed [OF P S, of r] by simp
qed

lemma progress_entry_range:
  "list_all (\<lambda>(l, c, t, q). 0 < t \<and> 0 \<le> q \<and> q \<le> 1 \<and> (t \<le> c \<longrightarrow> q = 1))
     (progress_entry label comp_val total_val)"
  by (simp add: progress_entry_def Let_def min_def max_def)

lemma progress_bars_range:
  "list_all (\<lambda>(l, c, t, q). 0 < t \<and> 0 \<le> q \<and> q \<le> 1 \<and> (t \<le> c \<longrightarrow> q = 1)) (progress_bars x)"
  unfolding progress_bars_def list_all_append
  using progress_entry_range by blast

lemma progress_bars_length:
  "length (progress_bars x)
   = length (filter (\<lambda>t. 0 < t)
       [Indoors_Total x, VRF_OD_Total x, DX_Outdoor_Total x, AHU_Total x])"
  by (simp add: progress_bars_def progress_entry_def Let_def)

text \<open>
  Claim C8. The summary has one row per project row. For a project list with the identity
  and quota columns and numbers in the quota cells, and a log whose completed cells are
  numbers or missing, the row of a project carries its totals and the plain sums of its
  completed counts, not clamped to the totals (so a sum may exceed its total). A
  completion ratio is shown for exactly the categories whose total is greater than 0, and
  each ratio shown lies between 0 and 1; it is 1 when the completed count reaches or
  exceeds the total.
\<close>

theorem summary_rows_and_ratios:
  "(summarize P S = Inr out \<longrightarrow> length out = length (rows P))
   \<and> (has_columns P [''Project Owner'', ''Project Name'', ''Indoors Qty'', ''VRF OD Qty'',
                      ''DX Outdoor Qty'', ''AHU Qty'']
       \<and> has_columns S [''Project Owner'', ''Project Name'', ''Indoors Completed'',
                      ''VRF OD Completed'', ''DX Outdoor Completed'', ''AHU Completed'']
       \<and> list_all (\<lambda>r. quotas_numbers r
             \<and> counts_countable S (cell_at r ''Project Owner'') (cell_at r ''Project Name''))
           (rows P)
       \<longrightarrow> summarize P S = Inr (map (spec_summary_row S) (rows P)))
   \<and> length (progress_bars x)
       = length (filter (\<lambda>t. 0 < t)
           [Indoors_Total x, VRF_OD_Total x, DX_Outdoor_Total x, AHU_Total x])
   \<and> list_all (\<lambda>(l, c, t, q). 0 < t \<and> 0 \<le> q \<and> q \<le> 1 \<and> (t \<le> c \<longrightarrow> q = 1)) (progress_bars x)"
  using summary_loop_length [of P S "rows P" out] summary_loop_well_formed [of P S "rows P"]
    progress_bars_length [of x] progress_bars_range [of x]
  by (simp add: summarize_def)

lemma over_log_match:
  "matching_rows over_log (Str ''Acme'') (Str ''Tower A'')
   = [acme_entry,
      new_row (Str ''2025-02-01'') (Str ''Acme'') (Str ''Tower A'') (Str ''Dubai'') 8 0 0 0
        [Str ''Ali''] []]"
  by (simp add: matching_rows_def over_log_def acme_log_def append_row_def pd_concat_def
      frame_of_row_def empty_frame_def acme_entry_def new_row_def cell_at_def)

theorem summary_rows_and_ratios_witness:
  "summarize acme_projects over_log
     = Inr [\<lparr>Project_Owner = Str ''Acme'', Project_Name = Str ''Tower A'',
             Indoors_Completed = 12, Indoors_Total = 10,
             VRF_OD_Completed = 1, VRF_OD_Total = 5,
             DX_Outdoor_Completed = 0, DX_Outdoor_Total = 0,
             AHU_Completed = 0, AHU_Total = 2\<rparr>]
   \<and> progress_bars \<lparr>Project_Owner = Str ''Acme'', Project_Name = Str ''Tower A'',
             Indoors_Completed = 12, Indoors_Total = 10,
             VRF_OD_Completed = 1, VRF_OD_Total = 5,
             DX_Outdoor_Completed = 0, DX_Outdoor_Total = 0,
             AHU_Completed = 0, AHU_Total = 2\<rparr>
     = [(''Indoor Units'', 12, 10, 1), (''VRF Outdoor'', 1, 5, 1 / 5), (''AHU'', 0, 2, 0)]"
proof -
  let ?x = "\<lparr>Project_Owner = Str ''Acme'', Project_Name = Str ''Tower A'',
             Indoors_Completed = 12, Indoors_Total = 10,
             VRF_OD_Completed = 1, VRF_OD_Total = 5,
             DX_Outdoor_Completed = 0, DX_Outdoor_Total = 0,
             AHU_Completed = 0, AHU_Total = 2\<rparr>"
  have P: "has_columns acme_projects [''Project Owner'', ''Project Name'', ''Indoors Qty'',
      ''VRF OD Qty'', ''DX Outdoor Qty'', ''AHU Qty'']"
    by (simp add: has_columns_def acme_projects_def)
  have S: "has_columns over_log [''Project Owner'', ''Project Name'', ''Indoors Completed'',
      ''VRF OD Completed'', ''DX Outdoor Completed'', ''AHU Completed'']"
    by (simp add: has_columns_def over_log_def acme_log_def append_row_def pd_concat_def
        empty_frame_def expected_columns_def)
  have id: "cell_at (hd (rows acme_projects)) ''Project Owner'' = Str ''Acme''"
    "cell_at (hd (rows acme_projects)) ''Project Name'' = Str ''Tower A''"
    by (simp_all add: acme_projects_def cell_at_def)
  have rs: "rows acme_projects = [hd (rows acme_projects)]"
    by (simp add: acme_projects_def)
  have q: "quotas_numbers (hd (rows acme_projects))"
    by (simp add: quotas_numbers_def acme_projects_def cell_at_def)
  have cnt: "counts_countable over_log (Str ''Acme'') (Str ''Tower A'')"
    by (simp add: counts_countable_def over_log_match)
      (simp add: acme_entry_def new_row_def cell_at_def)
  have wf: "list_all (\<lambda>r. quotas_numbers r
             \<and> counts_countable over_log (cell_at r ''Project Owner'') (cell_at r ''Project Name''))
           (rows acme_projects)"
    using q cnt id by (subst rs) simp
  have row: "spec_summary_row over_log (hd (rows acme_projects)) = ?x"
    unfolding spec_summary_row_def Let_def id completed_sum_def over_log_match
    by (simp add: acme_projects_def acme_entry_def new_row_def cell_at_def)
  have bars: "progress_bars ?x
     = [(''Indoor Units'', 12, 10, 1), (''VRF Outdoor'', 1, 5, 1 / 5), (''AHU'', 0, 2, 0)]"
    by (simp add: progress_bars_def progress_entry_def Let_def)
  from summary_rows_and_ratios [of acme_projects over_log _ ?x] P S wf
  have "summarize acme_projects over_log = Inr (map (spec_summary_row over_log) (rows acme_projects))"
    by blast
  then have "summarize acme_projects over_log = Inr [?x]"
    by (subst (asm) rs) (simp add: row)
  with bars show ?thesis by simp
qed

end
